theory Spec2Isabelle
  imports Complex_Main
begin

section \<open>Gramians, balancing and the L1 norm of linear systems (nengolib.signal.lyapunov)\<close>

text \<open>
  A shallow embedding of \<^verbatim>\<open>nengolib/signal/lyapunov.py\<close>.

  Conventions of the model.
  \<^item> A numpy array of rank 2 is a list of rows, an array of rank 1 is a list. The
    functions of the module are written for single-input single-output systems
    (\<^verbatim>\<open>np.squeeze(x0)\<close>, \<^verbatim>\<open>np.squeeze(abs(C.dot(x.T)))\<close>): \<open>B\<close> is \<open>n \<times> 1\<close>,
    \<open>C\<close> is \<open>1 \<times> n\<close>, \<open>D\<close> is \<open>1 \<times> 1\<close>, and an array with one element is read as that
    element.
  \<^item> A float is a real number: rounding, overflow and the propagation of \<^verbatim>\<open>nan\<close>
    through the numerics are not modelled. The one quotient of \<^verbatim>\<open>l1_norm\<close> whose
    divisor can be zero on a legal input, \<^verbatim>\<open>.5 * (U - L) / L\<close>, is modelled with
    the outcomes that numpy's float division has (\<^verbatim>\<open>inf\<close>, \<^verbatim>\<open>-inf\<close>, \<^verbatim>\<open>nan\<close>).
    Likewise \<^verbatim>\<open>np.sqrt\<close> and \<^verbatim>\<open>**\<close> are the real square root and power: they agree
    with numpy on positive arguments, which is where the claims use them.
  \<^item> The numerical routines that the module imports (\<^verbatim>\<open>scipy.linalg\<close>,
    \<^verbatim>\<open>scipy.optimize.fminbound\<close>, \<^verbatim>\<open>nengolib.signal.discrete.cont2discrete\<close>, the
    method \<^verbatim>\<open>impulse\<close> of \<^verbatim>\<open>LinearSystem\<close>) are not part of the module. They
    are parameters of the model, collected in the record \<open>numerics\<close>; every theorem
    holds for whatever these routines return, unless it names what it assumes of them.
    They are functions: a routine that raises is not modelled, but for \<^verbatim>\<open>cholesky\<close>,
    whose failure the module relies on.
  \<^item> \<^verbatim>\<open>l1_norm\<close> is split into the variables before the loop (\<open>l1_init\<close>), the four
    numbers that a pass computes (\<open>pass_bounds\<close>), the update of the variables
    (\<open>l1_step\<close>), the loop (\<open>l1_loop\<close>) and the checks and the result (\<open>l1_norm\<close>).
\<close>

subsection \<open>Arrays\<close>

type_synonym vec = "real list"
type_synonym mat = "real list list"

definition ncols :: "mat \<Rightarrow> nat" where
  "ncols M = (case M of [] \<Rightarrow> 0 | r # _ \<Rightarrow> length r)"

definition col :: "mat \<Rightarrow> nat \<Rightarrow> vec" where
  "col M j = map (\<lambda>r. r ! j) M"

text \<open>\<^verbatim>\<open>M.T\<close>\<close>

definition transpose_mat :: "mat \<Rightarrow> mat" where
  "transpose_mat M = map (col M) [0..<ncols M]"

text \<open>\<^verbatim>\<open>u.dot(v)\<close> for two arrays of rank 1\<close>

definition dot :: "vec \<Rightarrow> vec \<Rightarrow> real" where
  "dot u v = sum_list (map2 (*) u v)"

text \<open>\<^verbatim>\<open>np.dot(M, N)\<close> for two arrays of rank 2\<close>

definition mat_mul :: "mat \<Rightarrow> mat \<Rightarrow> mat" where
  "mat_mul M N = map (\<lambda>r. map (\<lambda>j. dot r (col N j)) [0..<ncols N]) M"

text \<open>\<^verbatim>\<open>np.dot(M, v)\<close> and \<^verbatim>\<open>v.dot(M)\<close> for an array of rank 2 and one of rank 1\<close>

definition mat_vec :: "mat \<Rightarrow> vec \<Rightarrow> vec" where
  "mat_vec M v = map (\<lambda>r. dot r v) M"

definition vec_mat :: "vec \<Rightarrow> mat \<Rightarrow> vec" where
  "vec_mat v M = map (\<lambda>j. dot v (col M j)) [0..<ncols M]"

definition mat_add :: "mat \<Rightarrow> mat \<Rightarrow> mat" where
  "mat_add M N = map2 (map2 (+)) M N"

definition mat_sub :: "mat \<Rightarrow> mat \<Rightarrow> mat" where
  "mat_sub M N = map2 (map2 (-)) M N"

definition mat_neg :: "mat \<Rightarrow> mat" where
  "mat_neg M = map (map uminus) M"

definition mat_scale :: "real \<Rightarrow> mat \<Rightarrow> mat" where
  "mat_scale c M = map (map ((*) c)) M"

text \<open>\<^verbatim>\<open>np.eye(n)\<close>\<close>

definition eye :: "nat \<Rightarrow> mat" where
  "eye n = map (\<lambda>i. map (\<lambda>j. if i = j then 1 else 0) [0..<n]) [0..<n]"

text \<open>\<^verbatim>\<open>M * v\<close>: broadcasting multiplies column \<open>j\<close> of \<open>M\<close> by \<open>v[j]\<close>.\<close>

definition scale_cols :: "mat \<Rightarrow> vec \<Rightarrow> mat" where
  "scale_cols M v = map (\<lambda>r. map2 (*) r v) M"

text \<open>\<^verbatim>\<open>v[:, None] * M\<close>: broadcasting multiplies row \<open>i\<close> of \<open>M\<close> by \<open>v[i]\<close>.\<close>

definition scale_rows :: "vec \<Rightarrow> mat \<Rightarrow> mat" where
  "scale_rows v M = map2 (\<lambda>c r. map ((*) c) r) v M"

text \<open>\<^verbatim>\<open>np.diag(v)\<close>\<close>

definition diag_mat :: "vec \<Rightarrow> mat" where
  "diag_mat v = map (\<lambda>i. map (\<lambda>j. if i = j then v ! i else 0) [0..<length v]) [0..<length v]"

text \<open>\<^verbatim>\<open>P[np.diag_indices(len(P))]\<close>\<close>

definition diagonal :: "mat \<Rightarrow> vec" where
  "diagonal P = map (\<lambda>i. P ! i ! i) [0..<length P]"

text \<open>\<^verbatim>\<open>np.squeeze\<close> of an array with one row, and of an array with one element\<close>

definition squeeze_row :: "mat \<Rightarrow> vec" where
  "squeeze_row M = hd M"

definition squeeze :: "mat \<Rightarrow> real" where
  "squeeze M = hd (hd M)"

text \<open>Shape: \<open>n\<close> rows of length \<open>m\<close>.\<close>

definition is_mat :: "nat \<Rightarrow> nat \<Rightarrow> mat \<Rightarrow> bool" where
  "is_mat n m M \<longleftrightarrow> length M = n \<and> list_all (\<lambda>r. length r = m) M"

subsection \<open>Errors and floats\<close>

text \<open>
  The exceptions of the module, by class and message. The format arguments of a message
  that are numbers are kept beside it (the text of \<^verbatim>\<open>%s\<close> for a system is not
  modelled).
\<close>

datatype error =
    NotImplementedError string
  | ValueError string "real list"
  | LinAlgError string

text \<open>
  The result of a float division in numpy: dividing by zero raises nothing (a warning
  is printed) and gives \<^verbatim>\<open>inf\<close>, \<^verbatim>\<open>-inf\<close> or \<^verbatim>\<open>nan\<close>. The divisors of this module are
  absolute values, so a zero divisor is \<^verbatim>\<open>+0.0\<close>.
\<close>

datatype float64 = Fin real | PInf | NInf | NaN

definition np_div :: "real \<Rightarrow> real \<Rightarrow> float64" where
  "np_div x y =
     (if y \<noteq> 0 then Fin (x / y)
      else if 0 < x then PInf else if x < 0 then NInf else NaN)"

text \<open>\<^verbatim>\<open>v >= r\<close> for a finite \<open>r\<close>: every comparison with \<^verbatim>\<open>nan\<close> is false.\<close>

fun np_ge :: "float64 \<Rightarrow> real \<Rightarrow> bool" where
  "np_ge (Fin x) r = (r \<le> x)"
| "np_ge PInf r = True"
| "np_ge NInf r = False"
| "np_ge NaN r = False"

text \<open>\<^verbatim>\<open>np.max\<close> of an array of rank 1; it raises on an empty array.\<close>

fun np_max :: "real list \<Rightarrow> error + real" where
  "np_max [] =
     Inl (ValueError ''zero-size array to reduction operation maximum which has no identity'' [])"
| "np_max (x # xs) = Inr (fold max xs x)"

subsection \<open>Systems and the imported numerics\<close>

text \<open>
  \<^verbatim>\<open>LinearSystem\<close>: the state-space matrices \<^verbatim>\<open>sys.ss\<close>, the flag \<^verbatim>\<open>sys.analog\<close> and
  \<^verbatim>\<open>sys.dcgain\<close>. The class is not part of the module; \<^verbatim>\<open>LinearSystem(sys)\<close> is the
  identity on a value of this record.
\<close>

record linsys =
  ss_A :: mat
  ss_B :: mat
  ss_C :: mat
  ss_D :: mat
  analog :: bool
  dcgain :: real

text \<open>
  The imported routines.
  \<^item> \<open>solve_lyapunov a q\<close>: \<^verbatim>\<open>scipy.linalg.solve_lyapunov(a, q)\<close>.
  \<^item> \<open>solve_discrete_lyapunov a q\<close>: \<^verbatim>\<open>scipy.linalg.solve_discrete_lyapunov(a, q)\<close>.
  \<^item> \<open>eig a\<close>: \<^verbatim>\<open>scipy.linalg.eig(a)[0]\<close>, the eigenvalues.
  \<^item> \<open>cholesky a\<close>: \<^verbatim>\<open>scipy.linalg.cholesky(a, lower=True)\<close>; it raises
    \<^verbatim>\<open>LinAlgError\<close> when \<open>a\<close> is not positive definite.
  \<^item> \<open>svd a\<close>: \<^verbatim>\<open>scipy.linalg.svd(a)\<close>, the triple that scipy documents as
    \<^verbatim>\<open>(U, s, Vh)\<close> with \<^verbatim>\<open>a == U @ diag(s) @ Vh\<close>.
  \<^item> \<open>fminbound f x1 x2 xtol\<close>: the second component (\<^verbatim>\<open>fval\<close>) of
    \<^verbatim>\<open>scipy.optimize.fminbound(f, x1, x2, args, xtol=xtol, full_output=True)\<close>, with
    \<^verbatim>\<open>args\<close> already given to \<open>f\<close>.
  \<^item> \<open>cont2discrete (A, B, C, D) dt\<close>: \<^verbatim>\<open>nengolib.signal.discrete.cont2discrete\<close>.
  \<^item> \<open>impulse dsys n\<close>: \<^verbatim>\<open>dsys.impulse(n)\<close>, an array of rank 1.
\<close>

record numerics =
  solve_lyapunov :: "mat \<Rightarrow> mat \<Rightarrow> mat"
  solve_discrete_lyapunov :: "mat \<Rightarrow> mat \<Rightarrow> mat"
  eig :: "mat \<Rightarrow> complex list"
  cholesky :: "mat \<Rightarrow> error + mat"
  svd :: "mat \<Rightarrow> mat \<times> vec \<times> mat"
  fminbound :: "(real \<Rightarrow> real) \<Rightarrow> real \<Rightarrow> real \<Rightarrow> real \<Rightarrow> real"
  cont2discrete :: "mat \<times> mat \<times> mat \<times> mat \<Rightarrow> real \<Rightarrow> linsys"
  impulse :: "linsys \<Rightarrow> int \<Rightarrow> vec"

subsection \<open>Gramians and the state norm\<close>

text \<open>\<^verbatim>\<open>_H2P(A, B, analog)\<close>\<close>

definition H2P :: "numerics \<Rightarrow> mat \<Rightarrow> mat \<Rightarrow> bool \<Rightarrow> mat" where
  "H2P np A B is_analog =
     (if is_analog
      then solve_lyapunov np A (mat_neg (mat_mul B (transpose_mat B)))
      else solve_discrete_lyapunov np A (mat_mul B (transpose_mat B)))"

text \<open>\<^verbatim>\<open>state_norm(sys, norm='H2')\<close>\<close>

definition state_norm :: "numerics \<Rightarrow> linsys \<Rightarrow> string \<Rightarrow> error + vec" where
  "state_norm np sys norm_name =
     (if norm_name = ''H2''
      then (let P = H2P np (ss_A sys) (ss_B sys) (analog sys)
            in Inr (map sqrt (diagonal P)))
      else Inl (NotImplementedError ''norm must be one of: H2''))"

text \<open>\<^verbatim>\<open>control_gram(sys)\<close>\<close>

definition control_gram :: "numerics \<Rightarrow> linsys \<Rightarrow> mat" where
  "control_gram np sys = H2P np (ss_A sys) (ss_B sys) (analog sys)"

text \<open>\<^verbatim>\<open>observe_gram(sys)\<close>\<close>

definition observe_gram :: "numerics \<Rightarrow> linsys \<Rightarrow> mat" where
  "observe_gram np sys =
     H2P np (transpose_mat (ss_A sys)) (transpose_mat (ss_C sys)) (analog sys)"

subsection \<open>The balancing transformation and the Hankel singular values\<close>

text \<open>
  \<^verbatim>\<open>balanced_transformation(sys)\<close>. The source names the third array that \<^verbatim>\<open>svd\<close>
  returns \<^verbatim>\<open>V\<close>; it is scipy's \<^verbatim>\<open>Vh\<close>. The source's \<^verbatim>\<open>O\<close> is \<open>Ob\<close> here.
\<close>

definition balanced_transformation :: "numerics \<Rightarrow> linsys \<Rightarrow> error + mat \<times> mat \<times> vec" where
  "balanced_transformation np sys =
     (if \<not> analog sys
      then Inl (NotImplementedError ''balanced digital filters not supported'')
      else
        let R = control_gram np sys;
            Ob = observe_gram np sys
        in case cholesky np R of
             Inl e \<Rightarrow> Inl e
           | Inr LR \<Rightarrow>
               (case cholesky np Ob of
                  Inl e \<Rightarrow> Inl e
                | Inr LO \<Rightarrow>
                    (case svd np (mat_mul (transpose_mat LO) LR) of
                       (U, S, V) \<Rightarrow>
                         let T = scale_cols (mat_mul LR (transpose_mat V))
                                   (map (\<lambda>s. s powr (- 1 / 2)) S);
                             Tinv = scale_rows (map (\<lambda>s. s powr (- 1 / 2)) S)
                                      (mat_mul (transpose_mat U) (transpose_mat LO))
                         in Inr (T, Tinv, S))))"

text \<open>\<^verbatim>\<open>hankel(sys)\<close>: \<^verbatim>\<open>np.sort(...)[::-1]\<close> is the ascending sort, reversed.\<close>

definition hankel :: "numerics \<Rightarrow> linsys \<Rightarrow> vec" where
  "hankel np sys =
     (let R = control_gram np sys;
          Ob = observe_gram np sys
      in rev (sort (map (\<lambda>z. sqrt (cmod z)) (eig np (mat_mul Ob R)))))"

subsection \<open>The L1 norm\<close>

text \<open>
  \<^verbatim>\<open>_state_impulse(A, x0, k, delay=0)\<close>: row \<open>delay\<close> is \<^verbatim>\<open>np.squeeze(x0)\<close>, every
  later row is \<open>A\<close> times the row before it, the rows before \<open>delay\<close> are zero. The
  source raises \<^verbatim>\<open>IndexError\<close> for \<open>k \<le> delay\<close>; \<^verbatim>\<open>l1_norm\<close> calls it with
  \<open>delay = 0\<close> and \<open>k = N\<close>, which is at least 16 (lemma \<open>iter_N_ge_16\<close>), and the model
  is meant for \<open>delay < k\<close> only.
\<close>

fun iterate_rows :: "mat \<Rightarrow> vec \<Rightarrow> nat \<Rightarrow> mat" where
  "iterate_rows A x 0 = []"
| "iterate_rows A x (Suc k) = x # iterate_rows A (mat_vec A x) k"

definition state_impulse :: "mat \<Rightarrow> mat \<Rightarrow> nat \<Rightarrow> nat \<Rightarrow> mat" where
  "state_impulse A x0 k delay =
     replicate delay (replicate (length A) 0) @ iterate_rows A (map hd x0) (k - delay)"

text \<open>\<^verbatim>\<open>x[cross]\<close>: the rows of \<open>x\<close> where the mask is true.\<close>

fun compress :: "bool list \<Rightarrow> 'a list \<Rightarrow> 'a list" where
  "compress (c # cs) (x # xs) = (if c then x # compress cs xs else compress cs xs)"
| "compress _ _ = []"

text \<open>
  \<^verbatim>\<open>abs_y[cross] = vals\<close>: the entries of \<open>abs_y\<close> where the mask is true are replaced by
  the values, in order. The mask of \<^verbatim>\<open>l1_norm\<close> is one shorter than \<open>abs_y\<close>; the numpy
  of the source's time reads the missing entry as false, which is what is modelled
  (the last entry is kept).
\<close>

fun masked_assign :: "real list \<Rightarrow> bool list \<Rightarrow> real list \<Rightarrow> real list" where
  "masked_assign (y # ys) (c # cs) vs =
     (if c then hd vs # masked_assign ys cs (tl vs) else y # masked_assign ys cs vs)"
| "masked_assign ys _ vs = ys"

text \<open>\<^verbatim>\<open>np.sum(x.dot(M) * x, axis=1)\<close>\<close>

definition quad_rows :: "mat \<Rightarrow> mat \<Rightarrow> vec" where
  "quad_rows x M = map sum_list (map2 (map2 (*)) (mat_mul x M) x)"

text \<open>
  \<^verbatim>\<open>_normtail(sig, A, x, C)\<close>, the function that \<^verbatim>\<open>fminbound\<close> minimises over \<open>sig\<close>.
  \<open>x\<close> is an array of rank 1 (the first call passes \<^verbatim>\<open>B.T\<close>, whose one row it is).
\<close>

definition normtail :: "numerics \<Rightarrow> real \<Rightarrow> mat \<Rightarrow> vec \<Rightarrow> mat \<Rightarrow> real" where
  "normtail np sig A x C =
     (let W = solve_lyapunov np
                (mat_add (transpose_mat A) (mat_scale sig (eye (length A))))
                (mat_neg (mat_mul (transpose_mat C) C))
      in sqrt (dot (vec_mat x W) x / 2 / sig))"

text \<open>The variables of the loop.\<close>

record l1_state =
  st_L :: real
  st_U :: real
  st_N :: int
  st_T :: real

text \<open>\<^verbatim>\<open>.5 * (U - L) / L\<close>\<close>

definition half_width :: "real \<Rightarrow> real \<Rightarrow> float64" where
  "half_width U L = np_div (0.5 * (U - L)) L"

text \<open>
  The guard \<^verbatim>\<open>N <= max_length and .5 * (U - L) / L >= rtol\<close>. Python's \<^verbatim>\<open>and\<close> does not
  evaluate its right operand when the left one is false.
\<close>

definition loop_cond :: "real \<Rightarrow> int \<Rightarrow> l1_state \<Rightarrow> bool" where
  "loop_cond rtol max_length s \<longleftrightarrow>
     (if st_N s \<le> max_length then np_ge (half_width (st_U s) (st_L s)) rtol else False)"

text \<open>
  The four numbers that one pass of the loop computes from \<open>T\<close> and \<open>N\<close>:
  \<^verbatim>\<open>L_impulse\<close>, \<^verbatim>\<open>L_tail\<close>, \<^verbatim>\<open>U_impulse\<close>, \<^verbatim>\<open>U_tail\<close> (steps 1 and 2 of the body).
\<close>

definition pass_bounds ::
  "numerics \<Rightarrow> linsys \<Rightarrow> real \<Rightarrow> real \<Rightarrow> real \<Rightarrow> real \<Rightarrow> int \<Rightarrow> real \<times> real \<times> real \<times> real" where
  "pass_bounds np sys alpha G0 xtol T N =
     (let A = ss_A sys; B = ss_B sys; C = ss_C sys;
          dt = T / real_of_int N;
          dsys = cont2discrete np (A, B, C, [[0]]) dt;
          Phi = ss_A dsys;
          y = impulse np dsys N;
          abs_y = map abs y;
          L_impulse = sum_list abs_y;
          L_tail = \<bar>G0 - sum_list y\<bar>;
          x = state_impulse Phi B (nat N) 0;
          abs_e = map abs (squeeze_row (mat_mul C (transpose_mat x)));
          x = butlast x;
          CTC = mat_mul (transpose_mat C) C;
          W = solve_lyapunov np (transpose_mat A)
                (mat_sub (mat_mul (mat_mul (transpose_mat Phi) CTC) Phi) CTC);
          AWA = mat_mul (transpose_mat A) (mat_mul W A);
          thresh = map (\<lambda>q. sqrt (dt * q)) (quad_rows x AWA);
          cross = map2 (\<lambda>m t. m \<le> t) (map2 max (butlast abs_e) (tl abs_e)) thresh;
          abs_y = masked_assign abs_y cross
                    (map (\<lambda>q. sqrt (dt * q)) (quad_rows (compress cross x) W));
          U_tail = fminbound np (\<lambda>sig. normtail np sig A (last x) C) 0 (- alpha) xtol;
          U_impulse = sum_list abs_y
      in (L_impulse, L_tail, U_impulse, U_tail))"

text \<open>One pass of the loop body.\<close>

definition l1_step :: "numerics \<Rightarrow> linsys \<Rightarrow> real \<Rightarrow> real \<Rightarrow> real \<Rightarrow> l1_state \<Rightarrow> l1_state" where
  "l1_step np sys alpha G0 xtol s =
     (case pass_bounds np sys alpha G0 xtol (st_T s) (st_N s) of
        (L_impulse, L_tail, U_impulse, U_tail) \<Rightarrow>
          let L = max (st_L s) (L_impulse + L_tail);
              U = max (min (st_U s) (U_impulse + U_tail)) L;
              N = st_N s * 2;
              T = (if U_impulse - L_impulse < U_tail - L_tail then st_T s * 2 else st_T s)
          in \<lparr>st_L = L, st_U = U, st_N = N, st_T = T\<rparr>)"

text \<open>The \<^verbatim>\<open>while\<close> loop; \<open>None\<close> is a loop that does not end.\<close>

partial_function (option) l1_loop ::
  "numerics \<Rightarrow> linsys \<Rightarrow> real \<Rightarrow> real \<Rightarrow> real \<Rightarrow> real \<Rightarrow> int \<Rightarrow> l1_state \<Rightarrow> l1_state option" where
  "l1_loop np sys alpha G0 xtol rtol max_length s =
     (if loop_cond rtol max_length s
      then l1_loop np sys alpha G0 xtol rtol max_length (l1_step np sys alpha G0 xtol s)
      else Some s)"

text \<open>
  \<^verbatim>\<open>G0 = sys.dcgain - sys.D\<close> and \<^verbatim>\<open>xtol = -alpha * 1e-4\<close>, and the variables before the
  first evaluation of the guard.
\<close>

definition l1_G0 :: "linsys \<Rightarrow> real" where
  "l1_G0 sys = dcgain sys - squeeze (ss_D sys)"

definition l1_xtol :: "real \<Rightarrow> real" where
  "l1_xtol alpha = - alpha * (1 / 10 ^ 4)"

definition l1_init :: "numerics \<Rightarrow> linsys \<Rightarrow> real \<Rightarrow> l1_state" where
  "l1_init np sys alpha =
     (let A = ss_A sys; B = ss_B sys; C = ss_C sys;
          G0 = l1_G0 sys;
          xtol = l1_xtol alpha;
          fopt = fminbound np (\<lambda>sig. normtail np sig A (squeeze_row (transpose_mat B)) C)
                   0 (- alpha) xtol
      in \<lparr>st_L = \<bar>G0\<bar>, st_U = fopt, st_N = 2 ^ 4, st_T = - 1 / alpha\<rparr>)"

text \<open>\<^verbatim>\<open>l1_norm(sys, rtol=1e-6, max_length=2**18)\<close>\<close>

definition l1_norm ::
  "numerics \<Rightarrow> linsys \<Rightarrow> real \<Rightarrow> int \<Rightarrow> (error + real \<times> float64) option" where
  "l1_norm np sys rtol max_length =
     (if \<not> analog sys then Some (Inl (ValueError ''system (%s) must be analog'' []))
      else
        case np_max (map Re (eig np (ss_A sys))) of
          Inl e \<Rightarrow> Some (Inl e)
        | Inr alpha \<Rightarrow>
            if alpha \<ge> 0
            then Some (Inl (ValueError ''system (%s) has unstable eigenvalue: %s'' [alpha]))
            else
              (case l1_loop np sys alpha (l1_G0 sys) (l1_xtol alpha) rtol max_length
                      (l1_init np sys alpha) of
                 None \<Rightarrow> None
               | Some s \<Rightarrow>
                   Some (Inr ((st_U s + st_L s) / 2 + \<bar>squeeze (ss_D sys)\<bar>,
                              half_width (st_U s) (st_L s)))))"

text \<open>The variables after \<open>k\<close> passes of the loop body.\<close>

definition l1_iter :: "numerics \<Rightarrow> linsys \<Rightarrow> real \<Rightarrow> nat \<Rightarrow> l1_state" where
  "l1_iter np sys alpha k =
     (l1_step np sys alpha (l1_G0 sys) (l1_xtol alpha) ^^ k) (l1_init np sys alpha)"



subsection \<open>Concrete systems and numerics\<close>

text \<open>
  Numerics for systems with one state, in closed form: the Lyapunov equations
  \<open>a w + w a = q\<close> and \<open>a w a - w + q = 0\<close> and the eigenvalue are solved exactly,
  \<open>fminbound\<close> returns the value at the midpoint of the interval (where \<open>normtail\<close>
  has its minimum for one state), and the discretisation uses the forward difference
  \<open>1 + a dt\<close> in the place of \<open>exp (a dt)\<close>.
\<close>

definition np1 :: numerics where
  "np1 =
     \<lparr>solve_lyapunov = (\<lambda>a q. [[squeeze q / (2 * squeeze a)]]),
      solve_discrete_lyapunov = (\<lambda>a q. [[squeeze q / (1 - squeeze a * squeeze a)]]),
      eig = (\<lambda>a. [complex_of_real (squeeze a)]),
      cholesky = (\<lambda>a. if 0 < squeeze a then Inr [[sqrt (squeeze a)]]
                       else Inl (LinAlgError ''matrix is not positive definite'')),
      svd = (\<lambda>a. ([[if squeeze a < 0 then - 1 else 1]], [\<bar>squeeze a\<bar>], [[1]])),
      fminbound = (\<lambda>f x1 x2 xtol. f ((x1 + x2) / 2)),
      cont2discrete = (\<lambda>(A, B, C, D) dt.
         \<lparr>ss_A = [[1 + squeeze A * dt]], ss_B = [[dt * squeeze B]], ss_C = C, ss_D = D,
          analog = False,
          dcgain = squeeze D - squeeze C * squeeze B / squeeze A\<rparr>),
      impulse = (\<lambda>dsys n.
         take (nat n)
           (squeeze (ss_D dsys) #
            map (\<lambda>k. squeeze (ss_C dsys) * squeeze (ss_A dsys) ^ k * squeeze (ss_B dsys))
              [0..<nat n - 1]))\<rparr>"

text \<open>
  Four systems with one state: \<open>sys0\<close> has no input into its state, so its gain at
  frequency zero is its feedthrough; \<open>sys1\<close> is the lowpass \<open>1 / (s + 1)\<close>;
  \<open>sys_integrator\<close> has the eigenvalue 0; \<open>sys_discrete\<close> is not analog.
\<close>

definition sys0 :: linsys where
  "sys0 = \<lparr>ss_A = [[- 1]], ss_B = [[0]], ss_C = [[1]], ss_D = [[2]], analog = True, dcgain = 2\<rparr>"

definition sys1 :: linsys where
  "sys1 = \<lparr>ss_A = [[- 1]], ss_B = [[1]], ss_C = [[1]], ss_D = [[0]], analog = True, dcgain = 1\<rparr>"

definition sys_integrator :: linsys where
  "sys_integrator =
     \<lparr>ss_A = [[0]], ss_B = [[1]], ss_C = [[1]], ss_D = [[0]], analog = True, dcgain = 0\<rparr>"

definition sys_discrete :: linsys where
  "sys_discrete =
     \<lparr>ss_A = [[1 / 2]], ss_B = [[1]], ss_C = [[1]], ss_D = [[0]], analog = False, dcgain = 2\<rparr>"

text \<open>
  The first pass of the loop for \<open>sys1\<close> with \<open>np1\<close> has \<open>dt = 1 / 16\<close>: \<open>ys1\<close> is the
  impulse response of the discretised system and \<open>xs1\<close> are its states.
\<close>

definition ys1 :: "real list" where
  "ys1 = 0 # map (\<lambda>k. (15 / 16) ^ k / 16) [0..<15]"

definition xs1 :: "real list list" where
  "xs1 = map (\<lambda>k. [(15 / 16) ^ k]) [0..<16]"

text \<open>
  A system with two states and rational data, \<open>sys2\<close>, with eigenvalues \<open>- 1 / 10\<close> and
  \<open>- 9 / 10\<close>. Its gramians \<open>R2\<close> and \<open>O2\<close>, their Cholesky factors \<open>Lr2\<close> and \<open>Lo2\<close>
  and a singular value decomposition \<open>U2\<close>, \<open>S2\<close>, \<open>Vh2\<close> of \<^verbatim>\<open>Lo2' Lr2\<close> are rational
  too (lemmas \<open>ex2_control_lyapunov\<close> to \<open>ex2_svd\<close> check them). \<open>V2\<close> is the transpose
  of \<open>Vh2\<close>, \<open>J2\<close> the inverse of the transpose of \<open>Lo2\<close>, and \<open>T2\<close>, \<open>Tinv2\<close> are what
  \<^verbatim>\<open>balanced_transformation\<close> returns. \<open>np2\<close> is \<open>np1\<close> with these values for the
  routines that \<^verbatim>\<open>balanced_transformation\<close> calls.
\<close>

definition sys2 :: linsys where
  "sys2 =
     \<lparr>ss_A = [[17 / 30, 11 / 25], [- 20 / 9, - 47 / 30]],
      ss_B = [[- 1 / 5], [5 / 3]],
      ss_C = [[20 / 3, 19 / 5]],
      ss_D = [[0]],
      analog = True,
      dcgain = 10\<rparr>"

definition R2 :: mat where "R2 = [[1, - 4 / 3], [- 4 / 3, 25 / 9]]"

definition O2 :: mat where "O2 = [[400 / 9, 64 / 3], [64 / 3, 53 / 5]]"

definition Lr2 :: mat where "Lr2 = [[1, 0], [- 4 / 3, 1]]"

definition Lo2 :: mat where "Lo2 = [[20 / 3, 0], [16 / 5, 3 / 5]]"

definition U2 :: mat where "U2 = [[1, 0], [0, 1]]"

definition S2 :: vec where "S2 = [4, 1]"

definition Vh2 :: mat where "Vh2 = [[3 / 5, 4 / 5], [- 4 / 5, 3 / 5]]"

definition V2 :: mat where "V2 = [[3 / 5, - 4 / 5], [4 / 5, 3 / 5]]"

definition J2 :: mat where "J2 = [[3 / 20, - 4 / 5], [0, 5 / 3]]"

definition T2 :: mat where "T2 = [[3 / 10, - 4 / 5], [0, 5 / 3]]"

definition Tinv2 :: mat where "Tinv2 = [[10 / 3, 8 / 5], [0, 3 / 5]]"

definition np2 :: numerics where
  "np2 = np1
     \<lparr>solve_lyapunov := (\<lambda>a q. if a = ss_A sys2 then R2
                              else if a = transpose_mat (ss_A sys2) then O2 else []),
      eig := (\<lambda>a. [- 1 / 10, - 9 / 10]),
      cholesky := (\<lambda>m. if m = R2 then Inr Lr2 else if m = O2 then Inr Lo2
                        else Inl (LinAlgError ''matrix is not positive definite'')),
      svd := (\<lambda>m. (U2, S2, Vh2))\<rparr>"

subsection \<open>The formula of the specification for the balancing transformation\<close>

text \<open>
  The specification writes the decomposition as \<^verbatim>\<open>Lo' Lr = U S V'\<close> (with \<^verbatim>\<open>'\<close> for the
  transpose) and the transformation as \<^verbatim>\<open>T = Lr V' diag(S^(-1/2))\<close>. This is that formula,
  for comparison with the one of the source.
\<close>

definition spec_balanced_T :: "mat \<Rightarrow> mat \<Rightarrow> vec \<Rightarrow> mat" where
  "spec_balanced_T Lr V S =
     mat_mul (mat_mul Lr (transpose_mat V)) (diag_mat (map (\<lambda>s. s powr (- 1 / 2)) S))"

section \<open>The loop of the L1 norm\<close>

subsection \<open>Unrolling the loop\<close>

lemma l1_loop_unroll:
  "(\<And>j. j < k \<Longrightarrow> loop_cond rtol ml ((l1_step np sys alpha G0 xtol ^^ j) s)) \<Longrightarrow>
   \<not> loop_cond rtol ml ((l1_step np sys alpha G0 xtol ^^ k) s) \<Longrightarrow>
   l1_loop np sys alpha G0 xtol rtol ml s = Some ((l1_step np sys alpha G0 xtol ^^ k) s)"
proof (induction k arbitrary: s)
  case 0
  then show ?case by (simp add: l1_loop.simps)
next
  case (Suc k)
  have c0: "loop_cond rtol ml s" using Suc.prems(1)[of 0] by simp
  have "l1_loop np sys alpha G0 xtol rtol ml (l1_step np sys alpha G0 xtol s)
        = Some ((l1_step np sys alpha G0 xtol ^^ k) (l1_step np sys alpha G0 xtol s))"
  proof (rule Suc.IH)
    fix j assume "j < k"
    then show "loop_cond rtol ml
        ((l1_step np sys alpha G0 xtol ^^ j) (l1_step np sys alpha G0 xtol s))"
      using Suc.prems(1)[of "Suc j"] by (simp add: funpow_swap1)
  next
    show "\<not> loop_cond rtol ml
        ((l1_step np sys alpha G0 xtol ^^ k) (l1_step np sys alpha G0 xtol s))"
      using Suc.prems(2) by (simp add: funpow_swap1)
  qed
  then show ?case using c0 by (subst l1_loop.simps) (simp add: funpow_swap1)
qed

lemma step_N: "st_N (l1_step np sys alpha G0 xtol s) = st_N s * 2"
  by (simp add: l1_step_def Let_def split: prod.splits)


lemma init_N: "st_N (l1_init np sys alpha) = 16"
  by (simp add: l1_init_def Let_def)

lemma iter_0: "l1_iter np sys alpha 0 = l1_init np sys alpha"
  by (simp add: l1_iter_def)

lemma iter_Suc:
  "l1_iter np sys alpha (Suc k) =
     l1_step np sys alpha (l1_G0 sys) (l1_xtol alpha) (l1_iter np sys alpha k)"
  by (simp add: l1_iter_def)

lemma iter_N: "st_N (l1_iter np sys alpha k) = 16 * 2 ^ k"
  by (induction k) (simp_all add: iter_0 iter_Suc init_N step_N)

lemma iter_N_ge_16: "16 \<le> st_N (l1_iter np sys alpha k)"
  by (simp add: iter_N)


text \<open>The guard fails once \<open>N\<close> has passed \<open>max_length\<close>, whatever the bounds are.\<close>

lemma loop_cond_fails_late: "\<not> loop_cond rtol ml (l1_iter np sys alpha (nat ml))"
proof -
  have "ml < 2 ^ nat ml"
  proof (cases "0 \<le> ml")
    case True
    have "int (nat ml) < 2 ^ nat ml" by (rule of_nat_less_two_power)
    with True show ?thesis by simp
  next
    case False
    then show ?thesis by (simp add: less_le_trans [of ml 0])
  qed
  moreover have "(0::int) < 2 ^ nat ml" by simp
  ultimately have "ml < 16 * 2 ^ nat ml" by linarith
  then have "ml < st_N (l1_iter np sys alpha (nat ml))"
    by (simp add: iter_N)
  then show ?thesis by (simp add: loop_cond_def)
qed

lemma loop_exit:
  "\<exists>k. (\<forall>j<k. loop_cond rtol ml (l1_iter np sys alpha j)) \<and>
       \<not> loop_cond rtol ml (l1_iter np sys alpha k)"
proof -
  have "\<exists>k. \<not> loop_cond rtol ml (l1_iter np sys alpha k)"
    using loop_cond_fails_late by blast
  then obtain k where "\<not> loop_cond rtol ml (l1_iter np sys alpha k)"
    and "\<forall>j<k. \<not> \<not> loop_cond rtol ml (l1_iter np sys alpha j)"
    using exists_least_iff [of "\<lambda>k. \<not> loop_cond rtol ml (l1_iter np sys alpha k)"] by blast
  then show ?thesis by blast
qed

lemma loop_result:
  assumes "\<forall>j<k. loop_cond rtol ml (l1_iter np sys alpha j)"
    and "\<not> loop_cond rtol ml (l1_iter np sys alpha k)"
  shows "l1_loop np sys alpha (l1_G0 sys) (l1_xtol alpha) rtol ml (l1_init np sys alpha)
           = Some (l1_iter np sys alpha k)"
  unfolding l1_iter_def
  by (rule l1_loop_unroll) (use assms in \<open>simp_all add: l1_iter_def\<close>)

lemma passes_bound:
  assumes "\<forall>j<k. loop_cond rtol ml (l1_iter np sys alpha j)"
  shows "real k \<le> max 0 (log 2 (real_of_int ml / 16) + 1)"
proof (cases k)
  case 0
  then show ?thesis by simp
next
  case (Suc m)
  with assms have "loop_cond rtol ml (l1_iter np sys alpha m)" by simp
  then have "st_N (l1_iter np sys alpha m) \<le> ml"
    by (simp add: loop_cond_def split: if_splits)
  then have le: "16 * 2 ^ m \<le> ml" by (simp add: iter_N)
  then have "real_of_int (16 * 2 ^ m) \<le> real_of_int ml"
    by (simp only: of_int_le_iff)
  then have "(2::real) ^ m \<le> real_of_int ml / 16"
    by simp
  then have "real m \<le> log 2 (real_of_int ml / 16)"
    by (simp add: le_log_of_power)
  with Suc show ?thesis by simp
qed

lemma l1_norm_stable:
  assumes "analog sys" "np_max (map Re (eig np (ss_A sys))) = Inr alpha" "alpha < 0"
  shows "l1_norm np sys rtol ml =
     map_option
       (\<lambda>s. Inr ((st_U s + st_L s) / 2 + \<bar>squeeze (ss_D sys)\<bar>, half_width (st_U s) (st_L s)))
       (l1_loop np sys alpha (l1_G0 sys) (l1_xtol alpha) rtol ml (l1_init np sys alpha))"
  using assms by (simp add: l1_norm_def split: option.splits)

lemma l1_norm_no_pass:
  assumes "analog sys" "np_max (map Re (eig np (ss_A sys))) = Inr alpha" "alpha < 0"
    and "\<not> loop_cond rtol ml (l1_init np sys alpha)"
  shows "l1_loop np sys alpha (l1_G0 sys) (l1_xtol alpha) rtol ml (l1_init np sys alpha)
           = Some (l1_init np sys alpha)"
    and "l1_norm np sys rtol ml =
           Some (Inr ((st_U (l1_init np sys alpha) + st_L (l1_init np sys alpha)) / 2
                        + \<bar>squeeze (ss_D sys)\<bar>,
                      half_width (st_U (l1_init np sys alpha)) (st_L (l1_init np sys alpha))))"
proof -
  from assms(4)
  show loop: "l1_loop np sys alpha (l1_G0 sys) (l1_xtol alpha) rtol ml (l1_init np sys alpha)
           = Some (l1_init np sys alpha)"
    by (subst l1_loop.simps) simp
  with assms(1-3) show "l1_norm np sys rtol ml =
           Some (Inr ((st_U (l1_init np sys alpha) + st_L (l1_init np sys alpha)) / 2
                        + \<bar>squeeze (ss_D sys)\<bar>,
                      half_width (st_U (l1_init np sys alpha)) (st_L (l1_init np sys alpha))))"
    by (simp add: l1_norm_stable)
qed

subsection \<open>One pass and the bounds\<close>







subsection \<open>The concrete systems, evaluated\<close>

lemma upt16: "[0..<16] = [0, 1, 2, 3, 4, 5, 6, 7, 8, 9, 10, 11, 12, 13, 14, 15]"
  by (simp add: upt_rec)

lemma np1_sel:
  "solve_lyapunov np1 = (\<lambda>a q. [[squeeze q / (2 * squeeze a)]])"
  "fminbound np1 = (\<lambda>f x1 x2 xtol. f ((x1 + x2) / 2))"
  "eig np1 = (\<lambda>a. [complex_of_real (squeeze a)])"
  by (simp_all add: np1_def)

lemma np1_alpha: "np_max (map Re (eig np1 [[a]])) = Inr a"
  by (simp add: np1_def squeeze_def)


lemma sys1_facts:
  "analog sys1" "np_max (map Re (eig np1 (ss_A sys1))) = Inr (- 1)" "squeeze (ss_D sys1) = 0"
  by (simp_all add: sys1_def np1_alpha squeeze_def)


lemma init1: "l1_init np1 sys1 (- 1) = \<lparr>st_L = 1, st_U = 1, st_N = 16, st_T = 1\<rparr>"
  by (simp add: l1_init_def l1_G0_def l1_xtol_def sys1_def np1_sel normtail_def Let_def
      squeeze_def squeeze_row_def transpose_mat_def ncols_def col_def vec_mat_def dot_def
      mat_add_def mat_scale_def eye_def mat_neg_def mat_mul_def)

text \<open>The first pass for \<open>sys1\<close>, step by step.\<close>

lemma le_sqrt_iff_sq: "0 \<le> a \<Longrightarrow> (a \<le> sqrt b) = (a\<^sup>2 \<le> b)"
  by (metis abs_of_nonneg real_sqrt_abs real_sqrt_le_iff)

lemma upt15: "[0..<15] = [0, 1, 2, 3, 4, 5, 6, 7, 8, 9, 10, 11, 12, 13, 14]"
  by (simp add: upt_rec)

lemma dsys1: "cont2discrete np1 (ss_A sys1, ss_B sys1, ss_C sys1, [[0]]) (1 / 16)
   = \<lparr>ss_A = [[15 / 16]], ss_B = [[1 / 16]], ss_C = [[1]], ss_D = [[0]], analog = False, dcgain = 1\<rparr>"
  by (simp add: np1_def sys1_def squeeze_def)

lemma imp1: "impulse np1 \<lparr>ss_A = [[15 / 16]], ss_B = [[1 / 16]], ss_C = [[1]], ss_D = [[0]], analog = False, dcgain = 1\<rparr> 16 = ys1"
  by (simp add: np1_def squeeze_def ys1_def)

lemma st1: "state_impulse [[15 / 16]] (ss_B sys1) 16 0 = xs1"
  apply (simp add: state_impulse_def sys1_def eval_nat_numeral mat_vec_def dot_def xs1_def upt_rec)
  done


lemma xs1_val: "xs1 = [[1], [15/16], [(15/16)^2], [(15/16)^3], [(15/16)^4], [(15/16)^5], [(15/16)^6],
   [(15/16)^7], [(15/16)^8], [(15/16)^9], [(15/16)^10], [(15/16)^11], [(15/16)^12], [(15/16)^13],
   [(15/16)^14], [(15/16)^15]]"
  unfolding xs1_def upt16 by (simp del: power_numeral power_divide)

lemma abs_e1: "map abs (squeeze_row (mat_mul (ss_C sys1) (transpose_mat xs1))) = map hd xs1"
  by (simp add: xs1_val sys1_def squeeze_row_def mat_mul_def transpose_mat_def ncols_def col_def
      dot_def upt16)

lemma normtail_np1: "normtail np1 (1 / 2) [[- 1]] [x] [[1]] = \<bar>x\<bar>"
  by (simp add: normtail_def np1_sel squeeze_def mat_add_def mat_scale_def eye_def mat_neg_def
      mat_mul_def transpose_mat_def ncols_def col_def dot_def vec_mat_def)

lemma W1:
  "solve_lyapunov np1 (transpose_mat (ss_A sys1))
     (mat_sub (mat_mul (mat_mul (transpose_mat [[15 / 16]])
                          (mat_mul (transpose_mat (ss_C sys1)) (ss_C sys1))) [[15 / 16]])
        (mat_mul (transpose_mat (ss_C sys1)) (ss_C sys1))) = [[31 / 512]]"
  by (simp add: np1_sel sys1_def squeeze_def mat_sub_def mat_mul_def transpose_mat_def ncols_def
      col_def dot_def)

lemma AWA1: "mat_mul (transpose_mat (ss_A sys1)) (mat_mul [[31 / 512]] (ss_A sys1)) = [[31 / 512]]"
  by (simp add: sys1_def mat_mul_def transpose_mat_def ncols_def col_def dot_def)

lemma compress_False: "compress (replicate n False) rows = []"
  by (induction n arbitrary: rows) (case_tac rows; simp)+

lemma masked_False: "masked_assign vals (replicate n False) vs = vals"
proof (induction n arbitrary: vals)
  case 0
  then show ?case by (cases vals) simp_all
next
  case (Suc n)
  then show ?case by (cases vals) simp_all
qed

lemma cross1:
  "map2 (\<le>) (map2 max (butlast (map hd xs1)) (tl (map hd xs1)))
     (map (\<lambda>q. sqrt (q / 16)) (quad_rows (butlast xs1) [[31 / 512]])) = replicate 15 False"
  apply (simp add: xs1_val quad_rows_def mat_mul_def ncols_def col_def dot_def le_sqrt_iff_sq)
  apply (simp add: eval_nat_numeral)
  done


lemma G01: "l1_G0 sys1 = 1" "l1_xtol (- 1) = 1 / 10 ^ 4"
  by (simp_all add: l1_G0_def l1_xtol_def sys1_def squeeze_def)

lemma ys1_sum: "sum_list (map abs ys1) = 1 - (15 / 16) ^ 15" "sum_list ys1 = 1 - (15 / 16) ^ 15"
  by (simp_all add: ys1_def upt15 power_divide)

lemma utail1:
  "fminbound np1 (\<lambda>sig. normtail np1 sig (ss_A sys1) (last (butlast xs1)) (ss_C sys1)) 0 1 xtol
     = (15 / 16) ^ 14"
proof -
  have "last (butlast xs1) = [(15 / 16) ^ 14]" by (simp add: xs1_val)
  then show ?thesis
    using normtail_np1 [of "(15 / 16) ^ 14"] by (simp add: np1_sel sys1_def)
qed

lemma pass1:
  "pass_bounds np1 sys1 (- 1) 1 xtol 1 16 =
     (1 - (15 / 16) ^ 15, (15 / 16) ^ 15, 1 - (15 / 16) ^ 15, (15 / 16) ^ 14)"
  by (simp add: pass_bounds_def Let_def dsys1 imp1 st1 abs_e1 W1 AWA1 cross1
      compress_False masked_False ys1_sum utail1)


lemma iter1_sys1:
  "l1_iter np1 sys1 (- 1) (Suc 0) = \<lparr>st_L = 1, st_U = 1, st_N = 32, st_T = 2\<rparr>"
  by (simp add: iter_Suc iter_0 init1 l1_step_def G01 pass1 Let_def)

lemma guards_sys1:
  "loop_cond 0 16 (l1_iter np1 sys1 (- 1) 0)"
  "\<not> loop_cond 0 16 (l1_iter np1 sys1 (- 1) (Suc 0))"
  by (simp_all add: iter1_sys1 iter_0 init1 loop_cond_def half_width_def np_div_def)

section \<open>The claims on the L1 norm\<close>



text \<open>
  C3. \<^verbatim>\<open>l1_norm\<close> raises \<^verbatim>\<open>ValueError\<close> for a system that is not analog, and
  \<^verbatim>\<open>ValueError\<close> with the value of \<open>alpha\<close> in its message when \<open>alpha\<close>, the largest real
  part of the eigenvalues of \<open>A\<close>, is not negative; for an analog system with negative
  \<open>alpha\<close> it returns a pair.
\<close>

theorem l1_norm_errors:
  "(\<not> analog sys \<longrightarrow>
      l1_norm np sys rtol ml = Some (Inl (ValueError ''system (%s) must be analog'' []))) \<and>
   (analog sys \<and> np_max (map Re (eig np (ss_A sys))) = Inr alpha \<and> 0 \<le> alpha \<longrightarrow>
      l1_norm np sys rtol ml =
        Some (Inl (ValueError ''system (%s) has unstable eigenvalue: %s'' [alpha]))) \<and>
   (analog sys \<and> np_max (map Re (eig np (ss_A sys))) = Inr alpha \<and> alpha < 0 \<longrightarrow>
      (\<exists>r. l1_norm np sys rtol ml = Some (Inr r)))"
proof (intro conjI impI)
  assume "\<not> analog sys"
  then show "l1_norm np sys rtol ml = Some (Inl (ValueError ''system (%s) must be analog'' []))"
    by (simp add: l1_norm_def)
next
  assume "analog sys \<and> np_max (map Re (eig np (ss_A sys))) = Inr alpha \<and> 0 \<le> alpha"
  then show "l1_norm np sys rtol ml =
      Some (Inl (ValueError ''system (%s) has unstable eigenvalue: %s'' [alpha]))"
    by (simp add: l1_norm_def)
next
  assume a: "analog sys \<and> np_max (map Re (eig np (ss_A sys))) = Inr alpha \<and> alpha < 0"
  obtain k where "\<forall>j<k. loop_cond rtol ml (l1_iter np sys alpha j)"
    and "\<not> loop_cond rtol ml (l1_iter np sys alpha k)"
    using loop_exit by blast
  then have "l1_loop np sys alpha (l1_G0 sys) (l1_xtol alpha) rtol ml (l1_init np sys alpha)
      = Some (l1_iter np sys alpha k)"
    by (rule loop_result)
  with a show "\<exists>r. l1_norm np sys rtol ml = Some (Inr r)"
    by (simp add: l1_norm_stable)
qed

theorem l1_norm_errors_witness:
  "l1_norm np1 sys_discrete (1 / 10 ^ 6) (2 ^ 18) =
     Some (Inl (ValueError ''system (%s) must be analog'' [])) \<and>
   l1_norm np1 sys_integrator (1 / 10 ^ 6) (2 ^ 18) =
     Some (Inl (ValueError ''system (%s) has unstable eigenvalue: %s'' [0])) \<and>
   (\<exists>r. l1_norm np1 sys0 (1 / 10 ^ 6) (2 ^ 18) = Some (Inr r))"
  using l1_norm_errors [of sys_discrete np1 "1 / 10 ^ 6" "2 ^ 18" 0]
    l1_norm_errors [of sys_integrator np1 "1 / 10 ^ 6" "2 ^ 18" 0]
    l1_norm_errors [of sys0 np1 "1 / 10 ^ 6" "2 ^ 18" "- 1"]
  by (simp add: sys_discrete_def sys_integrator_def sys0_def np1_alpha)



text \<open>
  C5. The loop of \<^verbatim>\<open>l1_norm\<close> ends on every input. \<open>N\<close> is 16 at the start and
  \<open>16 \<cdot> 2\<^sup>k\<close> after \<open>k\<close> passes; the loop returns the variables after some number \<open>k\<close>
  of passes, before each of which the guard held, and \<open>k\<close> is at most
  \<open>log\<^sub>2 (max_length / 16) + 1\<close> for \<open>16 \<le> max_length\<close> and 0 for \<open>max_length < 16\<close> (where
  that number is below 1, negative or undefined), whether or not \<open>rtol\<close> is ever
  reached.
\<close>

theorem l1_loop_terminates:
  "\<exists>k. l1_loop np sys alpha (l1_G0 sys) (l1_xtol alpha) rtol ml (l1_init np sys alpha)
          = Some (l1_iter np sys alpha k) \<and>
       (\<forall>j<k. loop_cond rtol ml (l1_iter np sys alpha j)) \<and>
       \<not> loop_cond rtol ml (l1_iter np sys alpha k) \<and>
       st_N (l1_init np sys alpha) = 16 \<and>
       st_N (l1_iter np sys alpha k) = 16 * 2 ^ k \<and>
       real k \<le> max 0 (log 2 (real_of_int ml / 16) + 1) \<and>
       (16 \<le> ml \<longrightarrow> real k \<le> log 2 (real_of_int ml / 16) + 1) \<and>
       (ml < 16 \<longrightarrow> k = 0)"
proof -
  obtain k where run: "\<forall>j<k. loop_cond rtol ml (l1_iter np sys alpha j)"
    and stop: "\<not> loop_cond rtol ml (l1_iter np sys alpha k)"
    using loop_exit by blast
  then have "l1_loop np sys alpha (l1_G0 sys) (l1_xtol alpha) rtol ml (l1_init np sys alpha)
      = Some (l1_iter np sys alpha k)"
    by (rule loop_result)
  moreover from run have bound: "real k \<le> max 0 (log 2 (real_of_int ml / 16) + 1)"
    by (rule passes_bound)
  moreover have "real k \<le> log 2 (real_of_int ml / 16) + 1" if "16 \<le> ml"
  proof -
    from that have "1 \<le> real_of_int ml / 16" by simp
    then have "0 \<le> log 2 (real_of_int ml / 16)" by simp
    with bound show ?thesis by simp
  qed
  moreover have "k = 0" if "ml < 16"
  proof (rule ccontr)
    assume "k \<noteq> 0"
    with run have "loop_cond rtol ml (l1_iter np sys alpha 0)" by simp
    with that show False by (simp add: loop_cond_def iter_0 init_N)
  qed
  ultimately show ?thesis using run stop by (auto simp: iter_N init_N)
qed

theorem l1_loop_terminates_witness:
  "l1_loop np1 sys1 (- 1) (l1_G0 sys1) (l1_xtol (- 1)) 0 16 (l1_init np1 sys1 (- 1))
     = Some \<lparr>st_L = 1, st_U = 1, st_N = 32, st_T = 2\<rparr>"
proof -
  obtain k where res: "l1_loop np1 sys1 (- 1) (l1_G0 sys1) (l1_xtol (- 1)) 0 16
        (l1_init np1 sys1 (- 1)) = Some (l1_iter np1 sys1 (- 1) k)"
    and run: "\<forall>j<k. loop_cond 0 16 (l1_iter np1 sys1 (- 1) j)"
    and stop: "\<not> loop_cond 0 16 (l1_iter np1 sys1 (- 1) k)"
    using l1_loop_terminates [of np1 sys1 "- 1" 0 16] by auto
  have "k \<noteq> 0"
  proof
    assume "k = 0"
    with stop guards_sys1(1) show False by simp
  qed
  moreover from run guards_sys1(2) have "\<not> Suc 0 < k" by auto
  ultimately have "k = Suc 0" by simp
  with res show ?thesis by (simp add: iter1_sys1)
qed





text \<open>
  C10. For an analog system with negative \<open>alpha\<close> and \<open>max_length < 16\<close> the body of the
  loop is never executed: the loop returns the first variables, \<open>L\<^sub>0 = \<bar>dcgain - D\<bar>\<close> and
  \<open>U\<^sub>0\<close>, the value that \<^verbatim>\<open>fminbound\<close> returns for the first tail bound, and the result is
  \<open>((U\<^sub>0 + L\<^sub>0) / 2 + \<bar>D\<bar>, .5 (U\<^sub>0 - L\<^sub>0) / L\<^sub>0)\<close>.
\<close>

theorem l1_norm_short_max_length:
  assumes "analog sys" and "np_max (map Re (eig np (ss_A sys))) = Inr alpha" and "alpha < 0"
    and "ml < 16"
  shows "l1_loop np sys alpha (l1_G0 sys) (l1_xtol alpha) rtol ml (l1_init np sys alpha)
           = Some (l1_init np sys alpha) \<and>
         st_L (l1_init np sys alpha) = \<bar>dcgain sys - squeeze (ss_D sys)\<bar> \<and>
         st_U (l1_init np sys alpha) =
           fminbound np
             (\<lambda>sig. normtail np sig (ss_A sys) (squeeze_row (transpose_mat (ss_B sys))) (ss_C sys))
             0 (- alpha) (- alpha * (1 / 10 ^ 4)) \<and>
         l1_norm np sys rtol ml =
           Some (Inr ((st_U (l1_init np sys alpha) + st_L (l1_init np sys alpha)) / 2
                        + \<bar>squeeze (ss_D sys)\<bar>,
                      np_div (0.5 * (st_U (l1_init np sys alpha) - st_L (l1_init np sys alpha)))
                        (st_L (l1_init np sys alpha))))"
proof -
  from \<open>ml < 16\<close> have stop: "\<not> loop_cond rtol ml (l1_init np sys alpha)"
    by (simp add: loop_cond_def init_N)
  note l1_norm_no_pass [OF assms(1-3) stop]
  then show ?thesis
    by (simp add: half_width_def) (simp add: l1_init_def l1_G0_def l1_xtol_def Let_def)
qed

theorem l1_norm_short_max_length_witness:
  "l1_norm np1 sys1 (1 / 10 ^ 6) 8 = Some (Inr (1, Fin 0))"
  using l1_norm_short_max_length
      [where np = np1 and sys = sys1 and alpha = "- 1" and rtol = "1 / 10 ^ 6" and ml = 8]
    sys1_facts
  by (simp add: init1 np_div_def)

section \<open>The claim on the state norm\<close>

text \<open>
  C8. \<^verbatim>\<open>state_norm(sys, norm)\<close> with \<^verbatim>\<open>norm = 'H2'\<close> returns, for each state, the
  square root of the entry of the controllability gramian on the diagonal; with any
  other \<^verbatim>\<open>norm\<close> it raises \<^verbatim>\<open>NotImplementedError\<close> with the message that names
  \<^verbatim>\<open>H2\<close>, whatever the system and the numerics are (they are not used).
\<close>

theorem state_norm_H2:
  "state_norm np sys ''H2'' =
     Inr (map (\<lambda>i. sqrt (control_gram np sys ! i ! i)) [0..<length (control_gram np sys)]) \<and>
   (norm_name \<noteq> ''H2'' \<longrightarrow>
      state_norm np sys norm_name = Inl (NotImplementedError ''norm must be one of: H2''))"
  by (simp add: state_norm_def control_gram_def diagonal_def Let_def)

theorem state_norm_H2_witness:
  "state_norm np1 sys0 ''L1'' = Inl (NotImplementedError ''norm must be one of: H2'')"
  using state_norm_H2 [of np1 sys0 "''L1''"] by simp

section \<open>The balancing transformation\<close>

subsection \<open>Products of square arrays\<close>

lemma is_mat_length: "is_mat n m M \<Longrightarrow> length M = n"
  by (simp add: is_mat_def)

lemma is_mat_row: "is_mat n m M \<Longrightarrow> i < n \<Longrightarrow> length (M ! i) = m"
  by (simp add: is_mat_def list_all_length)

lemma is_mat_ncols: "is_mat n n M \<Longrightarrow> ncols M = n"
  by (cases M) (auto simp: is_mat_def ncols_def)

lemma is_matI:
  "length M = n \<Longrightarrow> (\<And>i. i < n \<Longrightarrow> length (M ! i) = m) \<Longrightarrow> is_mat n m M"
  by (simp add: is_mat_def list_all_length)

lemma mat_eqI:
  assumes "is_mat n m A" and "is_mat n m B"
    and "\<And>i j. i < n \<Longrightarrow> j < m \<Longrightarrow> A ! i ! j = B ! i ! j"
  shows "A = B"
proof (rule nth_equalityI)
  show "length A = length B" using assms(1,2) by (simp add: is_mat_def)
next
  fix i assume "i < length A"
  then have i: "i < n" using assms(1) by (simp add: is_mat_def)
  show "A ! i = B ! i"
  proof (rule nth_equalityI)
    show "length (A ! i) = length (B ! i)"
      using i assms(1,2) by (simp add: is_mat_row)
  next
    fix j assume "j < length (A ! i)"
    then have "j < m" using i assms(1) by (simp add: is_mat_row)
    with i show "A ! i ! j = B ! i ! j" by (rule assms(3))
  qed
qed

lemma dot_sum:
  assumes "length u = n" and "length v = n"
  shows "dot u v = (\<Sum>k<n. u ! k * v ! k)"
proof -
  have "dot u v = (\<Sum>k = 0..<length (map2 (*) u v). map2 (*) u v ! k)"
    unfolding dot_def by (rule sum_list_sum_nth)
  also have "\<dots> = (\<Sum>k<n. u ! k * v ! k)"
    using assms by (simp add: atLeast0LessThan)
  finally show ?thesis .
qed

lemma col_nth: "j < length M \<Longrightarrow> col M i ! j = M ! j ! i"
  by (simp add: col_def)

lemma mat_mul_is_mat:
  assumes "is_mat n n A" and "is_mat n n B"
  shows "is_mat n n (mat_mul A B)"
  using assms by (intro is_matI) (simp_all add: mat_mul_def is_mat_ncols is_mat_length)

lemma mat_mul_nth:
  assumes "is_mat n n A" and "is_mat n n B" and "i < n" and "j < n"
  shows "mat_mul A B ! i ! j = (\<Sum>k<n. A ! i ! k * B ! k ! j)"
proof -
  have "mat_mul A B ! i ! j = dot (A ! i) (col B j)"
    using assms by (simp add: mat_mul_def is_mat_ncols is_mat_length)
  also have "\<dots> = (\<Sum>k<n. A ! i ! k * col B j ! k)"
    using assms by (intro dot_sum) (simp_all add: is_mat_row col_def is_mat_length)
  also have "\<dots> = (\<Sum>k<n. A ! i ! k * B ! k ! j)"
    using assms by (intro sum.cong) (simp_all add: col_nth is_mat_length)
  finally show ?thesis .
qed

lemma transpose_is_mat:
  assumes "is_mat n n A"
  shows "is_mat n n (transpose_mat A)"
  using assms by (intro is_matI) (simp_all add: transpose_mat_def is_mat_ncols col_def is_mat_length)

lemma transpose_nth:
  assumes "is_mat n n A" and "i < n" and "j < n"
  shows "transpose_mat A ! i ! j = A ! j ! i"
  using assms by (simp add: transpose_mat_def is_mat_ncols col_nth is_mat_length)

lemma eye_is_mat: "is_mat n n (eye n)"
  by (intro is_matI) (simp_all add: eye_def)

lemma eye_nth: "i < n \<Longrightarrow> j < n \<Longrightarrow> eye n ! i ! j = (if i = j then 1 else 0)"
  by (simp add: eye_def)

lemma diag_is_mat: "length v = n \<Longrightarrow> is_mat n n (diag_mat v)"
  by (intro is_matI) (simp_all add: diag_mat_def)

lemma diag_nth:
  "length v = n \<Longrightarrow> i < n \<Longrightarrow> j < n \<Longrightarrow> diag_mat v ! i ! j = (if i = j then v ! i else 0)"
  by (simp add: diag_mat_def)

lemma mat_mul_assoc:
  assumes A: "is_mat n n A" and B: "is_mat n n B" and C: "is_mat n n C"
  shows "mat_mul (mat_mul A B) C = mat_mul A (mat_mul B C)"
proof (rule mat_eqI [where n = n and m = n])
  show "is_mat n n (mat_mul (mat_mul A B) C)" by (intro mat_mul_is_mat A B C)
  show "is_mat n n (mat_mul A (mat_mul B C))" by (intro mat_mul_is_mat A B C)
next
  fix i j assume i: "i < n" and j: "j < n"
  have "mat_mul (mat_mul A B) C ! i ! j = (\<Sum>l<n. mat_mul A B ! i ! l * C ! l ! j)"
    by (intro mat_mul_nth mat_mul_is_mat A B C i j)
  also have "\<dots> = (\<Sum>l<n. (\<Sum>k<n. A ! i ! k * B ! k ! l) * C ! l ! j)"
    by (intro sum.cong refl) (simp add: mat_mul_nth [OF A B i])
  also have "\<dots> = (\<Sum>l<n. \<Sum>k<n. A ! i ! k * (B ! k ! l * C ! l ! j))"
    by (simp add: sum_distrib_right mult.assoc)
  also have "\<dots> = (\<Sum>k<n. \<Sum>l<n. A ! i ! k * (B ! k ! l * C ! l ! j))"
    by (rule sum.swap)
  also have "\<dots> = (\<Sum>k<n. A ! i ! k * (\<Sum>l<n. B ! k ! l * C ! l ! j))"
    by (simp add: sum_distrib_left)
  also have "\<dots> = (\<Sum>k<n. A ! i ! k * mat_mul B C ! k ! j)"
    by (intro sum.cong refl) (simp add: mat_mul_nth [OF B C _ j])
  also have "\<dots> = mat_mul A (mat_mul B C) ! i ! j"
    by (intro mat_mul_nth [symmetric] mat_mul_is_mat A B C i j)
  finally show "mat_mul (mat_mul A B) C ! i ! j = mat_mul A (mat_mul B C) ! i ! j" .
qed

lemma sum_delta_left: "(i::nat) < n \<Longrightarrow> (\<Sum>k<n. (if i = k then (1::real) else 0) * f k) = f i"
proof -
  assume i: "i < n"
  have "(\<Sum>k<n. (if i = k then (1::real) else 0) * f k) = (\<Sum>k<n. if k = i then f k else 0)"
    by (intro sum.cong) auto
  also have "\<dots> = f i" using i by simp
  finally show ?thesis .
qed

lemma sum_delta_right: "(j::nat) < n \<Longrightarrow> (\<Sum>k<n. f k * (if k = j then (1::real) else 0)) = f j"
proof -
  assume j: "j < n"
  have "(\<Sum>k<n. f k * (if k = j then (1::real) else 0)) = (\<Sum>k<n. if k = j then f k else 0)"
    by (intro sum.cong) auto
  also have "\<dots> = f j" using j by simp
  finally show ?thesis .
qed

lemma mat_mul_eye_left:
  assumes A: "is_mat n n A"
  shows "mat_mul (eye n) A = A"
proof (rule mat_eqI [where n = n and m = n])
  show "is_mat n n (mat_mul (eye n) A)" by (intro mat_mul_is_mat eye_is_mat A)
  show "is_mat n n A" by (rule A)
next
  fix i j assume i: "i < n" and j: "j < n"
  have "mat_mul (eye n) A ! i ! j = (\<Sum>k<n. eye n ! i ! k * A ! k ! j)"
    by (intro mat_mul_nth eye_is_mat A i j)
  also have "\<dots> = (\<Sum>k<n. (if i = k then 1 else 0) * A ! k ! j)"
    using i by (intro sum.cong refl) (simp add: eye_nth)
  also have "\<dots> = A ! i ! j" using i by (rule sum_delta_left)
  finally show "mat_mul (eye n) A ! i ! j = A ! i ! j" .
qed

lemma mat_mul_eye_right:
  assumes A: "is_mat n n A"
  shows "mat_mul A (eye n) = A"
proof (rule mat_eqI [where n = n and m = n])
  show "is_mat n n (mat_mul A (eye n))" by (intro mat_mul_is_mat eye_is_mat A)
  show "is_mat n n A" by (rule A)
next
  fix i j assume i: "i < n" and j: "j < n"
  have "mat_mul A (eye n) ! i ! j = (\<Sum>k<n. A ! i ! k * eye n ! k ! j)"
    by (intro mat_mul_nth eye_is_mat A i j)
  also have "\<dots> = (\<Sum>k<n. A ! i ! k * (if k = j then 1 else 0))"
    using j by (intro sum.cong refl) (simp add: eye_nth)
  also have "\<dots> = A ! i ! j" using j by (rule sum_delta_right)
  finally show "mat_mul A (eye n) ! i ! j = A ! i ! j" .
qed


lemma scale_cols_diag:
  assumes M: "is_mat n n M" and v: "length v = n"
  shows "scale_cols M v = mat_mul M (diag_mat v)"
proof (rule mat_eqI [where n = n and m = n])
  show "is_mat n n (scale_cols M v)"
    using M v by (intro is_matI) (simp_all add: scale_cols_def is_mat_length is_mat_row)
  show "is_mat n n (mat_mul M (diag_mat v))"
    by (intro mat_mul_is_mat diag_is_mat M v)
next
  fix i j assume i: "i < n" and j: "j < n"
  have "mat_mul M (diag_mat v) ! i ! j = (\<Sum>k<n. M ! i ! k * diag_mat v ! k ! j)"
    by (intro mat_mul_nth diag_is_mat M v i j)
  also have "\<dots> = (\<Sum>k<n. (M ! i ! k * v ! k) * (if k = j then 1 else 0))"
    using j v by (intro sum.cong refl) (simp add: diag_nth)
  also have "\<dots> = M ! i ! j * v ! j" using j by (rule sum_delta_right)
  finally have "mat_mul M (diag_mat v) ! i ! j = M ! i ! j * v ! j" .
  moreover have "scale_cols M v ! i ! j = M ! i ! j * v ! j"
    using M v i j by (simp add: scale_cols_def is_mat_length is_mat_row)
  ultimately show "scale_cols M v ! i ! j = mat_mul M (diag_mat v) ! i ! j" by simp
qed

lemma scale_rows_diag:
  assumes M: "is_mat n n M" and v: "length v = n"
  shows "scale_rows v M = mat_mul (diag_mat v) M"
proof (rule mat_eqI [where n = n and m = n])
  show "is_mat n n (scale_rows v M)"
    using M v by (intro is_matI) (simp_all add: scale_rows_def is_mat_length is_mat_row)
  show "is_mat n n (mat_mul (diag_mat v) M)"
    by (intro mat_mul_is_mat diag_is_mat M v)
next
  fix i j assume i: "i < n" and j: "j < n"
  have "mat_mul (diag_mat v) M ! i ! j = (\<Sum>k<n. diag_mat v ! i ! k * M ! k ! j)"
    by (intro mat_mul_nth diag_is_mat M v i j)
  also have "\<dots> = (\<Sum>k<n. (if i = k then 1 else 0) * (v ! k * M ! k ! j))"
    using i v by (intro sum.cong refl) (auto simp: diag_nth)
  also have "\<dots> = v ! i * M ! i ! j" using i by (rule sum_delta_left)
  finally have "mat_mul (diag_mat v) M ! i ! j = v ! i * M ! i ! j" .
  moreover have "scale_rows v M ! i ! j = v ! i * M ! i ! j"
    using M v i j by (simp add: scale_rows_def is_mat_length is_mat_row)
  ultimately show "scale_rows v M ! i ! j = mat_mul (diag_mat v) M ! i ! j" by simp
qed

lemma diag_mul_diag:
  assumes u: "length u = n" and v: "length v = n"
  shows "mat_mul (diag_mat u) (diag_mat v) = diag_mat (map2 (*) u v)"
proof (rule mat_eqI [where n = n and m = n])
  show "is_mat n n (mat_mul (diag_mat u) (diag_mat v))"
    by (intro mat_mul_is_mat diag_is_mat u v)
  show "is_mat n n (diag_mat (map2 (*) u v))"
    using u v by (intro diag_is_mat) simp
next
  fix i j assume i: "i < n" and j: "j < n"
  have "mat_mul (diag_mat u) (diag_mat v) ! i ! j
      = (\<Sum>k<n. diag_mat u ! i ! k * diag_mat v ! k ! j)"
    by (intro mat_mul_nth diag_is_mat u v i j)
  also have "\<dots> = (\<Sum>k<n. (if i = k then 1 else 0) * (u ! k * diag_mat v ! k ! j))"
    using i u by (intro sum.cong refl) (auto simp: diag_nth)
  also have "\<dots> = u ! i * diag_mat v ! i ! j" using i by (rule sum_delta_left)
  also have "\<dots> = diag_mat (map2 (*) u v) ! i ! j"
    using i j u v by (simp add: diag_nth)
  finally show "mat_mul (diag_mat u) (diag_mat v) ! i ! j = diag_mat (map2 (*) u v) ! i ! j" .
qed

lemma diag_ones: "diag_mat (replicate n 1) = eye n"
  by (rule mat_eqI [where n = n and m = n])
    (simp_all add: diag_is_mat eye_is_mat diag_nth eye_nth)

lemma powr_neg_half: "0 < (s::real) \<Longrightarrow> s powr (- 1 / 2) = 1 / sqrt s"
proof -
  assume s: "0 < s"
  have "s powr (- 1 / 2) = s powr - (1 / 2)" by simp
  also have "\<dots> = 1 / s powr (1 / 2)" by (rule powr_minus_divide)
  also have "\<dots> = 1 / sqrt s" using s by (simp add: powr_half_sqrt)
  finally show ?thesis .
qed

lemma powr_neg_half_sq: "0 < (s::real) \<Longrightarrow> s powr (- 1 / 2) * s powr (- 1 / 2) = 1 / s"
proof -
  assume s: "0 < s"
  then have "s powr (- 1 / 2) * s powr (- 1 / 2) = 1 / (sqrt s * sqrt s)"
    by (simp only: powr_neg_half) simp
  also have "\<dots> = 1 / s" using s by simp
  finally show ?thesis .
qed

text \<open>The product of the two scalings with the singular values between them.\<close>

lemma inv_sqrt_cancel:
  assumes S: "length S = n" and pos: "\<forall>s\<in>set S. 0 < s"
  shows "mat_mul (diag_mat S)
           (mat_mul (diag_mat (map (\<lambda>s. s powr (- 1 / 2)) S))
                    (diag_mat (map (\<lambda>s. s powr (- 1 / 2)) S)))
         = eye n"
proof -
  let ?d = "map (\<lambda>s. s powr (- 1 / 2)) S"
  have d: "length ?d = n" using S by simp
  have "mat_mul (diag_mat ?d) (diag_mat ?d) = diag_mat (map2 (*) ?d ?d)"
    by (rule diag_mul_diag [OF d d])
  then have "mat_mul (diag_mat S) (mat_mul (diag_mat ?d) (diag_mat ?d))
      = diag_mat (map2 (*) S (map2 (*) ?d ?d))"
    using S by (simp add: diag_mul_diag [where n = n])
  also have "map2 (*) S (map2 (*) ?d ?d) = replicate n 1"
  proof (rule nth_equalityI)
    show "length (map2 (*) S (map2 (*) ?d ?d)) = length (replicate n (1::real))"
      using S by simp
  next
    fix i assume "i < length (map2 (*) S (map2 (*) ?d ?d))"
    then have i: "i < n" using S by simp
    then have "0 < S ! i" using pos S by simp
    then have "S ! i * (S ! i powr (- 1 / 2) * S ! i powr (- 1 / 2)) = 1"
      using powr_neg_half_sq [of "S ! i"] by simp
    then show "map2 (*) S (map2 (*) ?d ?d) ! i = replicate n 1 ! i"
      using i S by simp
  qed
  finally show ?thesis by (simp add: diag_ones)
qed


lemma balancing_algebra:
  assumes Lr: "is_mat n n Lr" and Lot: "is_mat n n Lot" and U: "is_mat n n U"
    and Ut: "is_mat n n Ut" and Vh: "is_mat n n Vh" and Vt: "is_mat n n Vt"
    and Sg: "is_mat n n Sg" and Dg: "is_mat n n Dg" and J: "is_mat n n J"
    and svd_eq: "mat_mul (mat_mul U Sg) Vh = mat_mul Lot Lr"
    and UU: "mat_mul U Ut = eye n"
    and VV: "mat_mul Vh Vt = eye n"
    and SDD: "mat_mul Sg (mat_mul Dg Dg) = eye n"
    and JLo: "mat_mul J Lot = eye n"
  shows "mat_mul (mat_mul (mat_mul Lr Vt) Dg) (mat_mul Dg (mat_mul Ut Lot)) = eye n"
proof -
  let ?X = "mat_mul Vt (mat_mul (mat_mul Dg Dg) Ut)"
  note mats = Lr Lot U Ut Vh Vt Sg Dg J mat_mul_is_mat eye_is_mat
  note assoc = mat_mul_assoc [where n = n]
  have "mat_mul (mat_mul Lot Lr) ?X = mat_mul (mat_mul (mat_mul U Sg) Vh) ?X"
    by (simp only: svd_eq)
  also have "\<dots> = mat_mul U (mat_mul Sg (mat_mul (mat_mul Vh Vt) (mat_mul (mat_mul Dg Dg) Ut)))"
    by (simp add: assoc mats)
  also have "\<dots> = mat_mul U (mat_mul Sg (mat_mul (mat_mul Dg Dg) Ut))"
    by (simp add: VV mat_mul_eye_left mats)
  also have "\<dots> = mat_mul U (mat_mul (mat_mul Sg (mat_mul Dg Dg)) Ut)"
    by (simp add: assoc mats)
  also have "\<dots> = mat_mul U (mat_mul (eye n) Ut)"
    by (simp only: SDD)
  also have "\<dots> = eye n"
    by (simp add: mat_mul_eye_left mats UU)
  finally have MX: "mat_mul (mat_mul Lot Lr) ?X = eye n" .
  have "J = mat_mul J (mat_mul (mat_mul Lot Lr) ?X)"
    by (simp add: MX mat_mul_eye_right J)
  also have "\<dots> = mat_mul (mat_mul J Lot) (mat_mul Lr ?X)"
    by (simp add: assoc mats)
  also have "\<dots> = mat_mul Lr ?X"
    by (simp add: JLo mat_mul_eye_left mats)
  finally have LrX: "mat_mul Lr ?X = J" by simp
  have "mat_mul (mat_mul (mat_mul Lr Vt) Dg) (mat_mul Dg (mat_mul Ut Lot))
      = mat_mul (mat_mul Lr ?X) Lot"
    by (simp add: assoc mats)
  also have "\<dots> = eye n" by (simp add: LrX JLo)
  finally show ?thesis .
qed

lemma balancing_inverse:
  assumes Lr: "is_mat n n Lr" and Lo: "is_mat n n Lo" and U: "is_mat n n U"
    and Vh: "is_mat n n Vh" and S: "length S = n" and J: "is_mat n n J"
    and svd_eq: "mat_mul (mat_mul U (diag_mat S)) Vh = mat_mul (transpose_mat Lo) Lr"
    and UU: "mat_mul U (transpose_mat U) = eye n"
    and VV: "mat_mul Vh (transpose_mat Vh) = eye n"
    and pos: "\<forall>s\<in>set S. 0 < s"
    and JLo: "mat_mul J (transpose_mat Lo) = eye n"
  shows "mat_mul (mat_mul (mat_mul Lr (transpose_mat Vh)) (diag_mat (map (\<lambda>s. s powr (- 1 / 2)) S)))
           (mat_mul (diag_mat (map (\<lambda>s. s powr (- 1 / 2)) S))
              (mat_mul (transpose_mat U) (transpose_mat Lo)))
         = eye n"
proof (rule balancing_algebra [where U = U and Sg = "diag_mat S" and Vh = Vh and J = J])
  show "is_mat n n (diag_mat (map (\<lambda>s. s powr (- 1 / 2)) S))"
    using S by (intro diag_is_mat) simp
  show "mat_mul (diag_mat S)
     (mat_mul (diag_mat (map (\<lambda>s. s powr (- 1 / 2)) S))
       (diag_mat (map (\<lambda>s. s powr (- 1 / 2)) S))) = eye n"
    by (rule inv_sqrt_cancel [OF S pos])
qed (use assms in \<open>simp_all only: transpose_is_mat diag_is_mat\<close>)


subsection \<open>The system with two states, evaluated\<close>

lemma upt2: "[0..<2] = [0, 1]"
  by (simp add: upt_rec)

lemmas mat_eval =
  mat_mul_def transpose_mat_def col_def ncols_def dot_def mat_add_def mat_neg_def
  diag_mat_def eye_def scale_cols_def scale_rows_def upt2

lemmas ex2_defs =
  sys2_def R2_def O2_def Lr2_def Lo2_def U2_def S2_def Vh2_def V2_def J2_def T2_def Tinv2_def

text \<open>The values of \<open>np2\<close> are what the routines are documented to return for \<open>sys2\<close>.\<close>

lemma ex2_control_lyapunov:
  "mat_add (mat_add (mat_mul (ss_A sys2) R2) (mat_mul R2 (transpose_mat (ss_A sys2))))
     (mat_mul (ss_B sys2) (transpose_mat (ss_B sys2))) = [[0, 0], [0, 0]]"
  by (simp add: ex2_defs mat_eval)

lemma ex2_observe_lyapunov:
  "mat_add (mat_add (mat_mul (transpose_mat (ss_A sys2)) O2) (mat_mul O2 (ss_A sys2)))
     (mat_mul (transpose_mat (ss_C sys2)) (ss_C sys2)) = [[0, 0], [0, 0]]"
  by (simp add: ex2_defs mat_eval)

lemma ex2_cholesky:
  "mat_mul Lr2 (transpose_mat Lr2) = R2" "mat_mul Lo2 (transpose_mat Lo2) = O2"
  by (simp_all add: ex2_defs mat_eval)

lemma ex2_svd:
  "mat_mul (mat_mul U2 (diag_mat S2)) Vh2 = mat_mul (transpose_mat Lo2) Lr2"
  "mat_mul U2 (transpose_mat U2) = eye 2"
  "mat_mul Vh2 (transpose_mat Vh2) = eye 2"
  "transpose_mat V2 = Vh2" "transpose_mat Vh2 = V2"
  by (simp_all add: ex2_defs mat_eval)

lemma ex2_J: "mat_mul J2 (transpose_mat Lo2) = eye 2"
  by (simp add: ex2_defs mat_eval)

lemma ex2_grams: "control_gram np2 sys2 = R2" "observe_gram np2 sys2 = O2"
  by (simp_all add: control_gram_def observe_gram_def H2P_def np2_def)
     (simp_all add: sys2_def mat_eval)

lemma ex2_factors:
  "cholesky np2 (control_gram np2 sys2) = Inr Lr2"
  "cholesky np2 (observe_gram np2 sys2) = Inr Lo2"
  "svd np2 (mat_mul (transpose_mat Lo2) Lr2) = (U2, S2, Vh2)"
  by (simp_all add: ex2_grams) (simp_all add: np2_def R2_def O2_def)

lemma ex2_shapes:
  "is_mat 2 2 Lr2" "is_mat 2 2 Lo2" "is_mat 2 2 U2" "is_mat 2 2 Vh2" "length S2 = 2"
  "is_mat 2 2 J2" "\<forall>s\<in>set S2. 0 < s" "analog sys2"
  by (simp_all add: ex2_defs is_mat_def)

lemma ex2_powr: "(4::real) powr - (1 / 2) = 1 / 2"
  using powr_neg_half [of 4] by simp

lemma ex2_result: "balanced_transformation np2 sys2 = Inr (T2, Tinv2, S2)"
  by (simp add: balanced_transformation_def ex2_shapes ex2_factors Let_def)
     (simp add: ex2_defs mat_eval ex2_powr)

subsection \<open>The claim on the balancing transformation\<close>

text \<open>
  C2, as the source has it (\<^verbatim>\<open>'\<close> is the transpose). For an analog system whose
  gramians have the Cholesky factors \<open>Lr\<close> and \<open>Lo\<close>, with \<^verbatim>\<open>svd(Lo' Lr) = (U, S, Vh)\<close>,
  that is \<^verbatim>\<open>Lo' Lr = U diag(S) Vh\<close> with \<open>U\<close> and \<open>Vh\<close> orthogonal,
  \<^verbatim>\<open>balanced_transformation\<close> returns \<^verbatim>\<open>T = Lr Vh' diag(S^(-1/2))\<close>,
  \<^verbatim>\<open>Tinv = diag(S^(-1/2)) U' Lo'\<close> and \<open>S\<close> as \<^verbatim>\<open>svd\<close> gave it, and \<open>T Tinv\<close> is the
  identity. \<open>Vh\<close> is the array that the source calls \<^verbatim>\<open>V\<close>; in the notation
  \<^verbatim>\<open>Lo' Lr = U S V'\<close> of the claim it is \<^verbatim>\<open>V'\<close>, so that \<^verbatim>\<open>T = Lr V diag(S^(-1/2))\<close>.
  Positive definite gramians enter as: both factorisations succeed, the singular values
  are positive, and the transpose of \<open>Lo\<close> has the inverse \<open>J\<close>.
\<close>

theorem balanced_transformation_correct:
  assumes "analog sys"
    and "cholesky np (control_gram np sys) = Inr Lr"
    and "cholesky np (observe_gram np sys) = Inr Lo"
    and "svd np (mat_mul (transpose_mat Lo) Lr) = (U, S, Vh)"
    and "is_mat n n Lr" and "is_mat n n Lo" and "is_mat n n U" and "is_mat n n Vh"
    and "length S = n" and "is_mat n n J"
    and "mat_mul (mat_mul U (diag_mat S)) Vh = mat_mul (transpose_mat Lo) Lr"
    and "mat_mul U (transpose_mat U) = eye n"
    and "mat_mul Vh (transpose_mat Vh) = eye n"
    and "\<forall>s\<in>set S. 0 < s"
    and "mat_mul J (transpose_mat Lo) = eye n"
  shows "\<exists>T Tinv. balanced_transformation np sys = Inr (T, Tinv, S) \<and>
     T = mat_mul (mat_mul Lr (transpose_mat Vh)) (diag_mat (map (\<lambda>s. s powr (- 1 / 2)) S)) \<and>
     Tinv = mat_mul (diag_mat (map (\<lambda>s. s powr (- 1 / 2)) S))
              (mat_mul (transpose_mat U) (transpose_mat Lo)) \<and>
     mat_mul T Tinv = eye n"
proof -
  let ?d = "map (\<lambda>s. s powr (- 1 / 2)) S"
  have d: "length ?d = n" using assms(9) by simp
  have LV: "is_mat n n (mat_mul Lr (transpose_mat Vh))"
    by (intro mat_mul_is_mat transpose_is_mat assms)
  have UL: "is_mat n n (mat_mul (transpose_mat U) (transpose_mat Lo))"
    by (intro mat_mul_is_mat transpose_is_mat assms)
  have "balanced_transformation np sys =
      Inr (scale_cols (mat_mul Lr (transpose_mat Vh)) ?d,
           scale_rows ?d (mat_mul (transpose_mat U) (transpose_mat Lo)), S)"
    using assms(1-4) by (simp add: balanced_transformation_def Let_def)
  then have "balanced_transformation np sys =
      Inr (mat_mul (mat_mul Lr (transpose_mat Vh)) (diag_mat ?d),
           mat_mul (diag_mat ?d) (mat_mul (transpose_mat U) (transpose_mat Lo)), S)"
    by (simp only: scale_cols_diag [OF LV d] scale_rows_diag [OF UL d])
  moreover have "mat_mul (mat_mul (mat_mul Lr (transpose_mat Vh)) (diag_mat ?d))
      (mat_mul (diag_mat ?d) (mat_mul (transpose_mat U) (transpose_mat Lo))) = eye n"
    by (rule balancing_inverse [OF assms(5-9) assms(10) assms(11-15)])
  ultimately show ?thesis by blast
qed

theorem balanced_transformation_correct_witness:
  "balanced_transformation np2 sys2 = Inr (T2, Tinv2, S2) \<and> mat_mul T2 Tinv2 = eye 2"
proof -
  obtain T Tinv where "balanced_transformation np2 sys2 = Inr (T, Tinv, S2)"
    and "mat_mul T Tinv = eye 2"
    using balanced_transformation_correct
      [where np = np2 and sys = sys2 and Lr = Lr2 and Lo = Lo2 and U = U2 and S = S2
         and Vh = Vh2 and n = 2 and J = J2]
      ex2_shapes ex2_factors ex2_svd ex2_J
    by blast
  then show ?thesis by (simp add: ex2_result)
qed

text \<open>
  C2, as the claim has it, fails for \<open>sys2\<close>. With \<open>V2\<close>, the matrix for which
  \<^verbatim>\<open>Lo' Lr = U S V2'\<close>, the result \<open>T2\<close> is not \<^verbatim>\<open>Lr V2' diag(S^(-1/2))\<close>, and that
  matrix times \<open>Tinv2\<close> is not the identity. With \<open>Vh2\<close>, the array that the source calls
  \<^verbatim>\<open>V\<close>, the result is \<^verbatim>\<open>Lr Vh2' diag(S^(-1/2))\<close>, but \<^verbatim>\<open>Lo' Lr\<close> is not \<^verbatim>\<open>U S Vh2'\<close>.
\<close>

theorem balanced_T_spec_formula_counterexample:
  "balanced_transformation np2 sys2 = Inr (T2, Tinv2, S2) \<and>
   cholesky np2 (control_gram np2 sys2) = Inr Lr2 \<and>
   cholesky np2 (observe_gram np2 sys2) = Inr Lo2 \<and>
   mat_mul (transpose_mat Lo2) Lr2 = mat_mul (mat_mul U2 (diag_mat S2)) (transpose_mat V2) \<and>
   T2 \<noteq> spec_balanced_T Lr2 V2 S2 \<and>
   mat_mul (spec_balanced_T Lr2 V2 S2) Tinv2 \<noteq> eye 2 \<and>
   T2 = spec_balanced_T Lr2 Vh2 S2 \<and>
   mat_mul (transpose_mat Lo2) Lr2 \<noteq> mat_mul (mat_mul U2 (diag_mat S2)) (transpose_mat Vh2)"
proof -
  have "spec_balanced_T Lr2 V2 S2 = [[3 / 10, 4 / 5], [- 4 / 5, - 7 / 15]]"
    by (simp add: spec_balanced_T_def ex2_defs mat_eval ex2_powr)
  then have "T2 \<noteq> spec_balanced_T Lr2 V2 S2"
    and "mat_mul (spec_balanced_T Lr2 V2 S2) Tinv2 \<noteq> eye 2"
    by (simp_all add: T2_def Tinv2_def mat_eval)
  moreover have "T2 = spec_balanced_T Lr2 Vh2 S2"
    by (simp add: spec_balanced_T_def ex2_defs mat_eval ex2_powr)
  moreover have "mat_mul (transpose_mat Lo2) Lr2
      \<noteq> mat_mul (mat_mul U2 (diag_mat S2)) (transpose_mat Vh2)"
    by (simp add: ex2_defs mat_eval)
  ultimately show ?thesis
    by (simp add: ex2_result ex2_factors ex2_svd)
qed

end
